theory Spec2Isabelle
  imports Main
begin

section \<open>JavaScript values used by the notifier\<close>

text \<open>
  The repository is one Cloud Function, \<^verbatim>\<open>subscribeSlack\<close>, kept in five revisions of
  the same file. Each revision is embedded under the source's names, with a suffix for the
  four older ones:
  \<^item> \<open>_v1\<close>: \<^verbatim>\<open>src/unnamed/part_000\<close>;
  \<^item> \<open>_v2\<close>: \<^verbatim>\<open>src/index.js\<close>, lines 114-218 (the Repo field reads \<^verbatim>\<open>repo\<close>);
  \<^item> \<open>_v3\<close>: \<^verbatim>\<open>src/index.js\<close>, lines 1-113 (the Repo field reads \<^verbatim>\<open>repo || 'n/a'\<close>);
  \<^item> \<open>_v4\<close>: \<^verbatim>\<open>src/unnamed/part_001\<close>, lines 1-135;
  \<^item> no suffix: \<^verbatim>\<open>src/index.js\<close>, lines 219-471, the complete revision with the status
    table, the ignore tags and the failure webhook.

  A property that the parsed JSON document does not have is \<open>None\<close>. A string is the
  list of its characters; the dash of the complete revision, the only character of the
  source outside ASCII, is written as its three UTF-8 bytes.
\<close>

datatype js_error = TypeError | ReferenceError | SyntaxError

definition nl :: string where
  "nl = [CHR 0x0A]"

definition backtick :: string where
  "backtick = [CHR 0x60]"

definition emdash :: string where
  "emdash = [CHR 0xE2, CHR 0x80, CHR 0x94]"

text \<open>Truthiness of a string-valued property: \<^verbatim>\<open>undefined\<close> and \<^verbatim>\<open>''\<close> are falsy.\<close>

definition truthy :: "string option \<Rightarrow> bool" where
  "truthy v = (case v of None \<Rightarrow> False | Some s \<Rightarrow> s \<noteq> [])"

text \<open>\<^verbatim>\<open>a || b\<close> on two string-valued properties.\<close>

definition js_or :: "string option \<Rightarrow> string option \<Rightarrow> string option" where
  "js_or a b = (if truthy a then a else b)"

text \<open>\<^verbatim>\<open>a || 'literal'\<close> with a non-empty literal.\<close>

definition or_default :: "string option \<Rightarrow> string \<Rightarrow> string" where
  "or_default a d = (case a of None \<Rightarrow> d | Some s \<Rightarrow> if s \<noteq> [] then s else d)"

text \<open>A property inside a template literal: \<^verbatim>\<open>`${x}`\<close> prints \<^verbatim>\<open>undefined\<close> for a missing one.\<close>

definition template :: "string option \<Rightarrow> string" where
  "template v = (case v of None \<Rightarrow> ''undefined'' | Some s \<Rightarrow> s)"

text \<open>\<^verbatim>\<open>Array.prototype.join\<close> on an array of strings.\<close>

fun join :: "string \<Rightarrow> string list \<Rightarrow> string" where
  "join sep [] = []"
| "join sep [x] = x"
| "join sep (x # y # ys) = x @ sep @ join sep (y # ys)"

text \<open>\<^verbatim>\<open>String.prototype.startsWith\<close> and \<^verbatim>\<open>substring(0, 7)\<close>.\<close>

definition startsWith :: "string \<Rightarrow> string \<Rightarrow> bool" where
  "startsWith x p = (take (length p) x = p)"

definition substring_0_7 :: "string \<Rightarrow> string" where
  "substring_0_7 x = take 7 x"

text \<open>
  \<^verbatim>\<open>xs.includes(v)\<close> and \<^verbatim>\<open>xs.indexOf(v) !== -1\<close> for an array of strings \<open>xs\<close> and a
  property \<open>v\<close> that may be missing: \<^verbatim>\<open>undefined\<close> is no element of such an array.
\<close>

definition js_includes :: "string list \<Rightarrow> string option \<Rightarrow> bool" where
  "js_includes xs v = (case v of None \<Rightarrow> False | Some s \<Rightarrow> s \<in> set xs)"

text \<open>\<^verbatim>\<open>xs || []\<close> on an array that may be missing.\<close>

definition or_empty :: "'a list option \<Rightarrow> 'a list" where
  "or_empty xs = (case xs of None \<Rightarrow> [] | Some ys \<Rightarrow> ys)"

text \<open>
  Reading a property of a value, destructuring it or calling a method on it throws when
  the value is \<^verbatim>\<open>undefined\<close>; \<open>deref v k\<close> continues with \<open>k\<close> on the value that is there.
  \<open>seq r k\<close> continues with \<open>k\<close> on the value of an expression that did not throw.
\<close>

definition deref :: "'a option \<Rightarrow> ('a \<Rightarrow> js_error + 'b) \<Rightarrow> js_error + 'b" where
  "deref v k = (case v of None \<Rightarrow> Inl TypeError | Some x \<Rightarrow> k x)"

definition seq :: "js_error + 'a \<Rightarrow> ('a \<Rightarrow> js_error + 'b) \<Rightarrow> js_error + 'b" where
  "seq r k = (case r of Inl e \<Rightarrow> Inl e | Inr x \<Rightarrow> k x)"

section \<open>The Build object\<close>

text \<open>
  The fields of the Cloud Build resource that some revision reads. \<^verbatim>\<open>build.id\<close> is
  \<open>build_id\<close>.
\<close>

record repo_source =
  repoName :: "string option"
  branchName :: "string option"
  projectId :: "string option"

record resolved_repo_source =
  commitSha :: "string option"
  tagName :: "string option"

record build_source =
  repoSource :: "repo_source option"

record source_provenance =
  resolvedRepoSource :: "resolved_repo_source option"

record build =
  build_id :: "string option"
  status :: "string option"
  logUrl :: "string option"
  startTime :: "string option"
  finishTime :: "string option"
  images :: "string list option"
  tags :: "string list option"
  substitutions :: "(string \<rightharpoonup> string) option"
  source :: "build_source option"
  sourceProvenance :: "source_provenance option"

section \<open>The Slack message\<close>

text \<open>
  \<open>Mrkdwn t v\<close> is the text object \<^verbatim>\<open>{ type: 'mrkdwn', text: t, verbatim: v }\<close>. A block is
  a section with a text, a section with fields, a divider or a context with elements. A
  message without \<^verbatim>\<open>text\<close> or \<^verbatim>\<open>color\<close> has \<open>None\<close> there.
\<close>

datatype mrkdwn_object = Mrkdwn string bool

datatype block =
    SectionText mrkdwn_object
  | SectionFields "mrkdwn_object list"
  | Divider
  | Context "mrkdwn_object list"

record message =
  msg_text :: "string option"
  color :: "string option"
  blocks :: "block list"

section \<open>The platform\<close>

text \<open>
  Three library calls are not code of the repository and are parameters of the model:
  \<^item> \<open>base64_toString data\<close> is \<^verbatim>\<open>Buffer.from(data, 'base64').toString()\<close>;
  \<^item> \<open>JSON_parse\<close> is \<^verbatim>\<open>JSON.parse\<close>, read at the type of the Build object;
  \<^item> \<open>moment_unix text\<close> is the number \<^verbatim>\<open>moment(text).unix()\<close> as a template literal
    prints it.
  The first two may throw, the third does not.
\<close>

record platform =
  base64_toString :: "string \<Rightarrow> js_error + string"
  JSON_parse :: "string \<Rightarrow> js_error + build"
  moment_unix :: "string option \<Rightarrow> string"

section \<open>eventToBuild (the same in every revision)\<close>

definition eventToBuild :: "platform \<Rightarrow> string \<Rightarrow> js_error + build" where
  "eventToBuild p data =
     (case base64_toString p data of
        Inl e \<Rightarrow> Inl e
      | Inr decoded \<Rightarrow> JSON_parse p decoded)"

section \<open>The decoder of Node\<close>

text \<open>
  \<^verbatim>\<open>Buffer.from(data, 'base64')\<close> is a function of Node and not code of the repository.
  On a string it does not throw: it reads the characters of the two base64 alphabets
  (\<^verbatim>\<open>+\<close> and \<^verbatim>\<open>-\<close> are 62, \<^verbatim>\<open>/\<close> and \<^verbatim>\<open>_\<close> are 63), skips every other character,
  stops at the first \<^verbatim>\<open>=\<close>, and turns each four values of six bits into three bytes and a
  rest of three or two values into two bytes or one. \<^verbatim>\<open>toString()\<close> reads the bytes as
  UTF-8; the model keeps the bytes as the characters of the text.
\<close>

definition unbase64 :: "char \<Rightarrow> nat option" where
  "unbase64 c =
     (let n = of_char c :: nat in
      if 65 \<le> n \<and> n \<le> 90 then Some (n - 65)
      else if 97 \<le> n \<and> n \<le> 122 then Some (n - 71)
      else if 48 \<le> n \<and> n \<le> 57 then Some (n + 4)
      else if c = CHR ''+'' \<or> c = CHR ''-'' then Some 62
      else if c = CHR ''/'' \<or> c = CHR ''_'' then Some 63
      else None)"

fun sextets :: "string \<Rightarrow> nat list" where
  "sextets [] = []"
| "sextets (c # cs) =
     (if c = CHR ''='' then []
      else case unbase64 c of Some n \<Rightarrow> n # sextets cs | None \<Rightarrow> sextets cs)"

fun octets :: "nat list \<Rightarrow> nat list" where
  "octets (a # b # c # d # rest) =
     (a * 4 + b div 16) # ((b mod 16) * 16 + c div 4) # ((c mod 4) * 64 + d) # octets rest"
| "octets [a, b, c] = [a * 4 + b div 16, (b mod 16) * 16 + c div 4]"
| "octets [a, b] = [a * 4 + b div 16]"
| "octets _ = []"

definition Buffer_from_base64_toString :: "string \<Rightarrow> string" where
  "Buffer_from_base64_toString data = map char_of (octets (sextets data))"

text \<open>
  The platform of a Node process: the decoder above, with \<^verbatim>\<open>JSON.parse\<close> and \<^verbatim>\<open>moment\<close> still
  parameters.
\<close>

definition node_platform ::
    "(string \<Rightarrow> js_error + build) \<Rightarrow> (string option \<Rightarrow> string) \<Rightarrow> platform" where
  "node_platform parse unix =
     \<lparr>base64_toString = (\<lambda>data. Inr (Buffer_from_base64_toString data)),
      JSON_parse = parse, moment_unix = unix\<rparr>"

section \<open>The formatting helpers of the older revisions\<close>

definition mrkdwn :: "string \<Rightarrow> bool \<Rightarrow> mrkdwn_object" where
  "mrkdwn t verbatim = Mrkdwn t verbatim"

definition mrkdwnField :: "string \<Rightarrow> string \<Rightarrow> mrkdwn_object" where
  "mrkdwnField key v = mrkdwn (''*'' @ key @ '':*'' @ nl @ v @ nl) False"

definition mrkdwnLink :: "string \<Rightarrow> string \<Rightarrow> string" where
  "mrkdwnLink href t =
     (if t \<noteq> [] then ''<'' @ href @ ''|'' @ t @ ''>'' else ''<'' @ href @ ''>'')"

definition mrkdwnInlineCode :: "string \<Rightarrow> string" where
  "mrkdwnInlineCode t = backtick @ t @ backtick"

definition mrkdwnTimestamp :: "platform \<Rightarrow> string option \<Rightarrow> string" where
  "mrkdwnTimestamp p t =
     ''<!date^'' @ moment_unix p t @ ''^{date_short_pretty} {time_secs}|'' @ template t @ ''>''"

definition source_url :: "string option \<Rightarrow> string option \<Rightarrow> string option \<Rightarrow> string" where
  "source_url project repository sha =
     ''https://source.cloud.google.com/'' @ template project @ ''/'' @ template repository
       @ ''/+/'' @ template sha"

text \<open>
  The identifier \<^verbatim>\<open>repo\<close> of revisions 2 and 3 is declared nowhere in the module, so
  evaluating it throws.
\<close>

definition repo :: "js_error + string option" where
  "repo = Inl ReferenceError"

section \<open>Revision 1: \<^verbatim>\<open>src/unnamed/part_000\<close>\<close>

definition timestamp :: "platform \<Rightarrow> string option \<Rightarrow> string" where
  "timestamp p t =
     ''<!date^'' @ moment_unix p t @ ''^{date_short_pretty} {time_secs}|'' @ template t @ ''>''"

text \<open>
  Reading \<^verbatim>\<open>build.source.repoSource\<close> throws when \<^verbatim>\<open>build.source\<close> is missing, the
  destructuring throws when \<^verbatim>\<open>repoSource\<close> is missing, and likewise for the provenance;
  \<^verbatim>\<open>commitSha.substring\<close> and \<^verbatim>\<open>images.join\<close> throw on a missing property.
\<close>

definition createSlackMessage_v1 :: "platform \<Rightarrow> build \<Rightarrow> js_error + message" where
  "createSlackMessage_v1 p build =
     deref (source build) (\<lambda>src.
     deref (repoSource src) (\<lambda>rs.
     deref (sourceProvenance build) (\<lambda>prov.
     deref (resolvedRepoSource prov) (\<lambda>rrs.
     let commitUrl = source_url (projectId rs) (repoName rs) (commitSha rrs) in
     deref (commitSha rrs) (\<lambda>sha.
     let shortSha = substring_0_7 sha in
     deref (images build) (\<lambda>imgs.
     Inr \<lparr>msg_text = None, color = None, blocks =
       [SectionText (mrkdwn (''*<'' @ template (logUrl build) @ ''|Build Logs>*'' @ nl) False),
        SectionFields
         [mrkdwn (''*Status:*'' @ nl @ template (status build) @ nl) False,
          mrkdwn (''*Repo:*'' @ nl @ template (repoName rs) @ nl) False,
          mrkdwn (''*Branch:*'' @ nl @ template (branchName rs) @ nl) False,
          mrkdwn (''*Images:*'' @ nl @ join nl imgs @ nl) True,
          mrkdwn (''*Commit:*'' @ nl @ ''<'' @ commitUrl @ ''|'' @ backtick @ shortSha
                    @ backtick @ ''>'' @ nl) False,
          mrkdwn (''*Tag:*'' @ nl @ template (tagName rrs) @ nl) False,
          mrkdwn (''*Start:*'' @ nl @ timestamp p (startTime build) @ nl) False,
          mrkdwn (''*Finish:*'' @ nl @ timestamp p (finishTime build) @ nl) False]]\<rparr>))))))"

section \<open>Revision 2: \<^verbatim>\<open>src/index.js\<close>, lines 114-218\<close>

text \<open>
  The fields of the section are evaluated in order: Status, then Repo, whose argument
  \<^verbatim>\<open>repo\<close> throws before \<^verbatim>\<open>images.join\<close> is reached.
\<close>

definition createSlackMessage_v2 :: "platform \<Rightarrow> build \<Rightarrow> js_error + message" where
  "createSlackMessage_v2 p build =
     deref (source build) (\<lambda>src.
     deref (repoSource src) (\<lambda>rs.
     deref (sourceProvenance build) (\<lambda>prov.
     deref (resolvedRepoSource prov) (\<lambda>rrs.
     let commitUrl = source_url (projectId rs) (repoName rs) (commitSha rrs) in
     deref (commitSha rrs) (\<lambda>sha.
     let shortSha = substring_0_7 sha in
     seq repo (\<lambda>r.
     deref (images build) (\<lambda>imgs.
     Inr \<lparr>msg_text = Some (template (status build) @ '': '' @ template (branchName rs)),
          color = None, blocks =
       [SectionText (mrkdwn (''*<'' @ template (logUrl build) @ ''|Build Logs>*'' @ nl) False),
        SectionFields
         [mrkdwnField ''Status'' (template (status build)),
          mrkdwnField ''Repo'' (template r),
          mrkdwnField ''Branch'' (template (branchName rs)),
          mrkdwnField ''Images'' (join nl imgs),
          mrkdwn (''*Commit:*'' @ nl @ ''<'' @ commitUrl @ ''|'' @ backtick @ shortSha
                    @ backtick @ ''>'' @ nl) False,
          mrkdwnField ''Tag'' (or_default (tagName rrs) ''n/a''),
          mrkdwnField ''Start'' (timestamp p (startTime build)),
          mrkdwnField ''Finish'' (timestamp p (finishTime build))]]\<rparr>)))))))"

section \<open>Revision 3: \<^verbatim>\<open>src/index.js\<close>, lines 1-113\<close>

text \<open>
  Lines 64-70: \<^verbatim>\<open>commitUrl\<close>, \<^verbatim>\<open>shortSha\<close> and \<^verbatim>\<open>commitLink\<close>, from the two descriptors
  after \<^verbatim>\<open>|| {}\<close>. The test is on \<^verbatim>\<open>build.source.repoSource\<close> alone; with it present,
  \<^verbatim>\<open>commitSha.substring\<close> throws on a missing \<^verbatim>\<open>commitSha\<close>.
\<close>

definition commitLink_v3 ::
    "repo_source option \<Rightarrow> resolved_repo_source option \<Rightarrow> js_error + string" where
  "commitLink_v3 rs rrs =
     (case rs of
        None \<Rightarrow> Inr ''n/a''
      | Some r \<Rightarrow>
          deref (Option.bind rrs commitSha) (\<lambda>sha.
          Inr (mrkdwnLink (source_url (projectId r) (repoName r) (Some sha))
                 (mrkdwnInlineCode (substring_0_7 sha)))))"

definition createSlackMessage_v3 :: "platform \<Rightarrow> build \<Rightarrow> js_error + message" where
  "createSlackMessage_v3 p build =
     deref (source build) (\<lambda>src.
     deref (sourceProvenance build) (\<lambda>prov.
     let rs = repoSource src;
         rrs = resolvedRepoSource prov;
         branchName' = Option.bind rs branchName;
         tagName' = Option.bind rrs tagName
     in
     seq (commitLink_v3 rs rrs) (\<lambda>commitLink.
     seq repo (\<lambda>r.
     deref (images build) (\<lambda>imgs.
     Inr \<lparr>msg_text =
            Some (template (status build) @ '': '' @ template (js_or branchName' (build_id build))),
          color = None, blocks =
       [SectionText (mrkdwn (mrkdwnLink (template (logUrl build)) ''Build Logs'') False),
        SectionFields
         [mrkdwnField ''Status'' (template (status build)),
          mrkdwnField ''Repo'' (or_default r ''n/a''),
          mrkdwnField ''Branch'' (or_default branchName' ''n/a''),
          mrkdwnField ''Images'' (join nl imgs),
          mrkdwnField ''Commit'' commitLink,
          mrkdwnField ''Tag'' (or_default tagName' ''n/a''),
          mrkdwnField ''Start'' (mrkdwnTimestamp p (startTime build)),
          mrkdwnField ''Finish'' (mrkdwnTimestamp p (finishTime build))]]\<rparr>)))))"

section \<open>The handler of revisions 2 and 3\<close>

text \<open>
  A run of the handler is the pair of what it threw, if anything, and the messages it
  handed to \<^verbatim>\<open>send\<close>, in order, each with the webhook it went to.
\<close>

datatype webhook = General | Failure

type_synonym run = "js_error option \<times> (webhook \<times> message) list"

definition subscribeSlack_v2 :: "platform \<Rightarrow> string \<Rightarrow> run" where
  "subscribeSlack_v2 p data =
     (case eventToBuild p data of
        Inl e \<Rightarrow> (Some e, [])
      | Inr build \<Rightarrow>
          if \<not> js_includes [''SUCCESS'', ''FAILURE'', ''INTERNAL_ERROR'', ''TIMEOUT'', ''CANCELLED'']
                 (status build)
          then (None, [])
          else (case createSlackMessage_v2 p build of
                  Inl e \<Rightarrow> (Some e, [])
                | Inr message \<Rightarrow> (None, [(General, message)])))"

definition subscribeSlack_v3 :: "platform \<Rightarrow> string \<Rightarrow> run" where
  "subscribeSlack_v3 p data =
     (case eventToBuild p data of
        Inl e \<Rightarrow> (Some e, [])
      | Inr build \<Rightarrow>
          if \<not> js_includes [''SUCCESS'', ''FAILURE'', ''INTERNAL_ERROR'', ''TIMEOUT'', ''CANCELLED'']
                 (status build)
          then (None, [])
          else (case createSlackMessage_v3 p build of
                  Inl e \<Rightarrow> (Some e, [])
                | Inr message \<Rightarrow> (None, [(General, message)])))"

section \<open>Revision 4: \<^verbatim>\<open>src/unnamed/part_001\<close>\<close>

text \<open>\<^verbatim>\<open>(substitutions || {}).KEY\<close>.\<close>

definition substitution :: "build \<Rightarrow> string \<Rightarrow> string option" where
  "substitution build key = (case substitutions build of None \<Rightarrow> None | Some s \<Rightarrow> s key)"

text \<open>Lines 58-61: the two descriptors and their fields, each after \<^verbatim>\<open>|| {}\<close>.\<close>

definition repoSource_v4 :: "build \<Rightarrow> repo_source option" where
  "repoSource_v4 build = Option.bind (source build) repoSource"

definition resolvedRepoSource_v4 :: "build \<Rightarrow> resolved_repo_source option" where
  "resolvedRepoSource_v4 build = Option.bind (sourceProvenance build) resolvedRepoSource"

definition projectId_v4 :: "build \<Rightarrow> string option" where
  "projectId_v4 build = Option.bind (repoSource_v4 build) projectId"

definition tagName_v4 :: "build \<Rightarrow> string option" where
  "tagName_v4 build = Option.bind (resolvedRepoSource_v4 build) tagName"

text \<open>Lines 63-65: the three reassignments.\<close>

definition repoName_v4 :: "build \<Rightarrow> string option" where
  "repoName_v4 build =
     js_or (Option.bind (repoSource_v4 build) repoName) (substitution build ''REPO_NAME'')"

definition branchName_v4 :: "build \<Rightarrow> string option" where
  "branchName_v4 build =
     js_or (Option.bind (repoSource_v4 build) branchName) (substitution build ''BRANCH_NAME'')"

definition commitSha_v4 :: "build \<Rightarrow> string option" where
  "commitSha_v4 build =
     js_or (js_or (Option.bind (resolvedRepoSource_v4 build) commitSha)
                  (substitution build ''COMMIT_SHA''))
           (substitution build ''REVISION_ID'')"

text \<open>Lines 89-92.\<close>

definition hasRepoInfo_v4 :: "build \<Rightarrow> bool" where
  "hasRepoInfo_v4 build =
     (truthy (projectId_v4 build) \<and> truthy (repoName_v4 build) \<and> truthy (commitSha_v4 build))"

definition commitLink_v4 :: "build \<Rightarrow> string" where
  "commitLink_v4 build =
     (if hasRepoInfo_v4 build
      then mrkdwnLink (source_url (projectId_v4 build) (repoName_v4 build) (commitSha_v4 build))
             (mrkdwnInlineCode (substring_0_7 (template (commitSha_v4 build))))
      else ''n/a'')"

definition createSlackMessage_v4 :: "platform \<Rightarrow> build \<Rightarrow> js_error + message" where
  "createSlackMessage_v4 p build =
     Inr \<lparr>msg_text =
            Some (template (status build) @ '': ''
                    @ template (js_or (branchName_v4 build) (build_id build))),
          color = None, blocks =
       [SectionText (mrkdwn (mrkdwnLink (template (logUrl build)) ''*Build Logs*'') False),
        SectionFields
         [mrkdwnField ''Status'' (template (status build)),
          mrkdwnField ''Repo'' (or_default (repoName_v4 build) ''n/a''),
          mrkdwnField ''Branch'' (or_default (branchName_v4 build) ''n/a''),
          mrkdwnField ''Images'' (join nl (or_empty (images build))),
          mrkdwnField ''Commit'' (commitLink_v4 build),
          mrkdwnField ''Tag'' (or_default (tagName_v4 build) ''n/a''),
          mrkdwnField ''Start'' (mrkdwnTimestamp p (startTime build)),
          mrkdwnField ''Finish'' (mrkdwnTimestamp p (finishTime build))]]\<rparr>"

section \<open>The complete revision: \<^verbatim>\<open>src/index.js\<close>, lines 219-471\<close>

subsection \<open>The status table\<close>

text \<open>The entries of \<^verbatim>\<open>statusCodes\<close> in the order of the source: key, color, text.\<close>

definition statusCodes :: "(string \<times> string \<times> string) list" where
  "statusCodes =
     [(''CANCELLED'', ''#fbbc05'', ''Build cancelled''),
      (''FAILURE'', ''#ea4335'', ''Build failed''),
      (''INTERNAL_ERROR'', ''#ea4335'', ''Internal error encountered during build''),
      (''QUEUED'', ''#fbbc05'', ''New build queued''),
      (''SUCCESS'', ''#34a853'', ''Build successfully completed''),
      (''TIMEOUT'', ''#ea4335'', ''Build timed out''),
      (''WORKING'', ''#34a853'', ''New build in progress''),
      (''STATUS_UNKNOWN'', ''#444444'', ''Unknown build status'')]"

text \<open>
  \<^verbatim>\<open>statusCodes\<close> is an object literal, so besides its own eight keys it answers to
  the names it inherits from \<^verbatim>\<open>Object.prototype\<close>, with a function or an object that has
  neither \<^verbatim>\<open>text\<close> nor \<^verbatim>\<open>color\<close>.
\<close>

definition Object_prototype :: "string list" where
  "Object_prototype =
     [''constructor'', ''__defineGetter__'', ''__defineSetter__'', ''hasOwnProperty'',
      ''__lookupGetter__'', ''__lookupSetter__'', ''isPrototypeOf'', ''propertyIsEnumerable'',
      ''toString'', ''valueOf'', ''__proto__'', ''toLocaleString'']"

datatype property = Undefined | Own string string | Inherited

text \<open>
  \<^verbatim>\<open>statusCodes[build.status]\<close>: the key is the status as a string (\<^verbatim>\<open>undefined\<close> for a
  missing one).
\<close>

definition statusCodes_get :: "string option \<Rightarrow> property" where
  "statusCodes_get key =
     (case map_of statusCodes (template key) of
        Some (c, t) \<Rightarrow> Own c t
      | None \<Rightarrow> if template key \<in> set Object_prototype then Inherited else Undefined)"

text \<open>\<^verbatim>\<open>.text\<close> and \<^verbatim>\<open>.color\<close> of what the table returned; they throw on \<^verbatim>\<open>undefined\<close>.\<close>

definition property_text :: "property \<Rightarrow> js_error + string option" where
  "property_text e =
     (case e of Undefined \<Rightarrow> Inl TypeError | Own c t \<Rightarrow> Inr (Some t) | Inherited \<Rightarrow> Inr None)"

definition property_color :: "property \<Rightarrow> js_error + string option" where
  "property_color e =
     (case e of Undefined \<Rightarrow> Inl TypeError | Own c t \<Rightarrow> Inr (Some c) | Inherited \<Rightarrow> Inr None)"

subsection \<open>The Markdown helpers\<close>

text \<open>The fifth helper, \<^verbatim>\<open>Markdown.timestamp\<close>, is called nowhere and is left out.\<close>

definition Markdown_markdown :: "string \<Rightarrow> bool \<Rightarrow> mrkdwn_object" where
  "Markdown_markdown t verbatim = Mrkdwn t verbatim"

definition Markdown_field :: "string \<Rightarrow> string \<Rightarrow> mrkdwn_object" where
  "Markdown_field key v = Markdown_markdown (key @ nl @ ''*'' @ v @ ''*'') False"

definition Markdown_link :: "string \<Rightarrow> string \<Rightarrow> string" where
  "Markdown_link href t =
     (if t \<noteq> [] then ''<'' @ href @ ''|'' @ t @ ''>'' else ''<'' @ href @ ''>'')"

definition Markdown_code :: "string \<Rightarrow> string" where
  "Markdown_code t = backtick @ t @ backtick"

subsection \<open>createSlackMessage\<close>

text \<open>
  \<open>tags1\<close>, \<open>tags2\<close> and \<open>tags3\<close> are the three successive values of the variable
  \<^verbatim>\<open>tags\<close>; \<open>orgId\<close> is \<open>None\<close> while it is \<^verbatim>\<open>null\<close>.
\<close>

definition createSlackMessage :: "build \<Rightarrow> js_error + message" where
  "createSlackMessage build =
     seq (property_text (statusCodes_get (status build))) (\<lambda>entry_text.
     seq (property_color (statusCodes_get (status build))) (\<lambda>entry_color.
     let statusMsg_text = js_or entry_text (status build);
         statusMsg_color = or_default entry_color ''#444444'';
         tags1 = or_empty (tags build);
         tags2 = filter (\<lambda>x. \<not> startsWith x ''trigger-'') tags1;
         isScheduler = (''schedule'' \<in> set tags2);
         repoName = substitution build ''REPO_NAME'';
         branchName = substitution build ''BRANCH_NAME'';
         commitSha = js_or (substitution build ''COMMIT_SHA'') (substitution build ''REVISION_ID'');
         orgId = (if isScheduler
                  then Some (join '', '' (filter (\<lambda>x. x \<noteq> ''schedule'') tags2))
                  else None);
         type = (if isScheduler then ''Schedule'' else ''Build'');
         tags3 = (if isScheduler
                  then filter (\<lambda>x. x \<noteq> ''schedule'' \<and> Some x \<noteq> orgId) tags2
                  else tags2);
         repoSection =
           (if truthy repoName \<or> truthy branchName \<or> truthy commitSha
            then [Divider,
                  Context [Markdown_field ''Branch'' (or_default branchName emdash)],
                  Context [Markdown_field ''Commit'' (or_default commitSha emdash)],
                  Context [Markdown_field ''Repo'' (or_default repoName emdash)]]
            else [])
     in
     Inr \<lparr>msg_text =
            Some (template statusMsg_text @ '': '' @ type @ '' for ''
                    @ template (js_or (js_or orgId branchName) (build_id build))),
          color = Some statusMsg_color,
          blocks =
            [Context [Markdown_markdown
                        (Markdown_link (template (logUrl build)) ''Click here to view logs...'')
                        False],
             Context [Markdown_markdown (''Type: *'' @ type @ ''*'') False,
                      Markdown_markdown (''Status: *'' @ template (status build) @ ''*'') False]]
            @ (if truthy orgId
               then [Divider,
                     Context [Markdown_markdown
                                (''Organization ID'' @ nl @ backtick @ template orgId @ backtick)
                                False]]
               else [])
            @ repoSection
            @ (if length tags3 > 0
               then [Divider,
                     Context [Markdown_field ''Tags''
                                (join nl (map (\<lambda>x. backtick @ x @ backtick) tags3))]]
               else [])\<rparr>))"

subsection \<open>The module's configuration and subscribeSlack\<close>

text \<open>
  The four module constants that the environment decides: whether \<^verbatim>\<open>webhooks.failure\<close> is
  a webhook (\<^verbatim>\<open>SLACK_WEBHOOK_URL_FAILURE\<close> is set) and the three lists. \<open>default_config\<close>
  has the lists of an environment that sets none of the three variables.
\<close>

record config =
  webhooks_failure :: bool
  failureStatuses :: "string list"
  notifyStatuses :: "string list"
  ignoreTags :: "string list"

definition default_config :: "bool \<Rightarrow> config" where
  "default_config failure_url_set =
     \<lparr>webhooks_failure = failure_url_set,
      failureStatuses = [''FAILURE'', ''INTERNAL_ERROR'', ''TIMEOUT''],
      notifyStatuses = [''SUCCESS'', ''FAILURE'', ''INTERNAL_ERROR'', ''TIMEOUT'', ''CANCELLED''],
      ignoreTags = [''schedule'']\<rparr>"

text \<open>
  The message is built before the two filters run. The failure webhook is served before
  the general one.
\<close>

definition subscribeSlack :: "config \<Rightarrow> platform \<Rightarrow> string \<Rightarrow> run" where
  "subscribeSlack cfg p data =
     (case eventToBuild p data of
        Inl e \<Rightarrow> (Some e, [])
      | Inr build \<Rightarrow>
          (case createSlackMessage build of
             Inl e \<Rightarrow> (Some e, [])
           | Inr message \<Rightarrow>
               if \<not> js_includes (notifyStatuses cfg) (status build) then (None, [])
               else
                 let xTags = filter (\<lambda>v. v \<in> set (ignoreTags cfg))
                               (or_empty (tags build))
                 in
                 if length xTags > 0 \<and> status build = Some ''SUCCESS'' then (None, [])
                 else
                   (None,
                    (if webhooks_failure cfg \<and> js_includes (failureStatuses cfg) (status build)
                     then [(Failure, message)] else [])
                    @ [(General, message)])))"

section \<open>The notification policy in the words of the specification\<close>

text \<open>
  Section 4.2 of the specification, step by step: the pair is \<open>send\<close> and
  \<open>sendToFailureChannel\<close>. It is compared below with what \<open>subscribeSlack\<close> sends.
\<close>

definition shouldNotify_spec :: "config \<Rightarrow> build \<Rightarrow> bool \<times> bool" where
  "shouldNotify_spec cfg build =
     (if \<not> js_includes (notifyStatuses cfg) (status build) then (False, False)
      else if set (or_empty (tags build)) \<inter> set (ignoreTags cfg) \<noteq> {}
              \<and> status build = Some ''SUCCESS''
      then (False, False)
      else (True, webhooks_failure cfg \<and> js_includes (failureStatuses cfg) (status build)))"

section \<open>Concrete inputs\<close>

text \<open>
  \<open>empty_build\<close> is the Build object that \<^verbatim>\<open>JSON.parse('{}')\<close> returns. \<open>stub_platform b\<close> is
  a platform for evaluating the handlers on the Build object \<open>b\<close>: the payload
  \<^verbatim>\<open>QlVJTEQ=\<close> decodes to a text that parses to \<open>b\<close>, no other text parses, and
  \<^verbatim>\<open>moment\<close> reads every time as 2024-01-01T00:00:00Z.
\<close>

definition empty_build :: build where
  "empty_build =
     \<lparr>build_id = None, status = None, logUrl = None, startTime = None, finishTime = None,
      images = None, tags = None, substitutions = None, source = None,
      sourceProvenance = None\<rparr>"

definition stub_platform :: "build \<Rightarrow> platform" where
  "stub_platform b =
     \<lparr>base64_toString =
        (\<lambda>data. if data = ''QlVJTEQ='' then Inr ''BUILD''
                else if data = ''bm90IGpzb24='' then Inr ''not json''
                else Inr []),
      JSON_parse = (\<lambda>t. if t = ''BUILD'' then Inr b else Inl SyntaxError),
      moment_unix = (\<lambda>t. ''1704067200'')\<rparr>"

text \<open>
  The scheduled build of the specification's last scenario, failed and successful, and the
  message of the failed one.
\<close>

definition nightly_failure :: build where
  "nightly_failure =
     empty_build\<lparr>build_id := Some ''b1'', status := Some ''FAILURE'',
       logUrl := Some ''https://x/log'', tags := Some [''schedule'', ''team-x'']\<rparr>"

definition nightly_success :: build where
  "nightly_success = nightly_failure\<lparr>status := Some ''SUCCESS''\<rparr>"

definition nightly_failure_message :: message where
  "nightly_failure_message =
     \<lparr>msg_text = Some ''Build failed: Schedule for team-x'', color = Some ''#ea4335'',
      blocks =
        [Context [Mrkdwn ''<https://x/log|Click here to view logs...>'' False],
         Context [Mrkdwn ''Type: *Schedule*'' False, Mrkdwn ''Status: *FAILURE*'' False],
         Divider,
         Context [Mrkdwn (''Organization ID'' @ nl @ backtick @ ''team-x'' @ backtick) False]]\<rparr>"

text \<open>
  The module constants when SUCCESS is the only notify status, as an environment with
  \<^verbatim>\<open>SLACK_NOTIFY_STATUSES=success\<close> and nothing else sets them.
\<close>

definition notify_success_only :: config where
  "notify_success_only = (default_config False)\<lparr>notifyStatuses := [''SUCCESS'']\<rparr>"

text \<open>
  The build of the specification's first scenario with a status that the table does not
  list, and a successful build that carries both descriptors and one substitution.
\<close>

definition bogus_build :: build where
  "bogus_build =
     \<lparr>build_id = Some ''b1'', status = Some ''BOGUS'', logUrl = Some ''https://x/log'',
      startTime = Some ''2024-01-01T00:00:00Z'', finishTime = Some ''2024-01-01T00:10:00Z'',
      images = Some [], tags = Some [],
      substitutions = Some [''REPO_NAME'' \<mapsto> ''svc'', ''BRANCH_NAME'' \<mapsto> ''main'',
                            ''COMMIT_SHA'' \<mapsto> ''abcdef1234567''],
      source = None, sourceProvenance = None\<rparr>"

definition sourced_build :: build where
  "sourced_build =
     \<lparr>build_id = Some ''b1'', status = Some ''SUCCESS'', logUrl = Some ''https://x/log'',
      startTime = Some ''2024-01-01T00:00:00Z'', finishTime = Some ''2024-01-01T00:10:00Z'',
      images = Some [], tags = Some [],
      substitutions = Some [''REPO_NAME'' \<mapsto> ''svc''],
      source = Some \<lparr>repoSource = Some \<lparr>repoName = Some ''app'', branchName = Some ''main'',
                                          projectId = Some ''proj''\<rparr>\<rparr>,
      sourceProvenance = Some \<lparr>resolvedRepoSource =
                                  Some \<lparr>commitSha = Some ''abcdef1234567'', tagName = None\<rparr>\<rparr>\<rparr>"

text \<open>A repository descriptor without project id, and a build without either descriptor.\<close>

definition no_project :: repo_source where
  "no_project = \<lparr>repoName = Some ''svc'', branchName = Some ''main'', projectId = None\<rparr>"

definition undescribed_build :: build where
  "undescribed_build =
     empty_build\<lparr>build_id := Some ''b1'', status := Some ''SUCCESS'',
       source := Some \<lparr>repoSource = None\<rparr>,
       sourceProvenance := Some \<lparr>resolvedRepoSource = None\<rparr>\<rparr>"

definition no_project_build :: build where
  "no_project_build = sourced_build\<lparr>source := Some \<lparr>repoSource = Some no_project\<rparr>\<rparr>"

text \<open>
  The first scenario again, successful and with a project id: all three parts of the
  commit link are known, the repository and the commit through the substitutions.
\<close>

definition substituted_build :: build where
  "substituted_build =
     bogus_build\<lparr>status := Some ''SUCCESS'',
       source := Some \<lparr>repoSource = Some \<lparr>repoName = None, branchName = None,
                                            projectId = Some ''proj''\<rparr>\<rparr>\<rparr>"

text \<open>
  The module constants when EXPIRED, a status that Cloud Build reports, is added to the
  notify statuses and to the failure statuses and the failure webhook is set, and a build
  with that status.
\<close>

definition expired_config :: config where
  "expired_config =
     \<lparr>webhooks_failure = True,
      failureStatuses = [''FAILURE'', ''INTERNAL_ERROR'', ''TIMEOUT'', ''EXPIRED''],
      notifyStatuses =
        [''SUCCESS'', ''FAILURE'', ''INTERNAL_ERROR'', ''TIMEOUT'', ''CANCELLED'', ''EXPIRED''],
      ignoreTags = [''schedule'']\<rparr>"

definition expired_build :: build where
  "expired_build =
     empty_build\<lparr>build_id := Some ''b1'', status := Some ''EXPIRED'',
       logUrl := Some ''https://x/log''\<rparr>"

text \<open>
  A stand-in for \<^verbatim>\<open>JSON.parse\<close> that knows one document, the empty object. It is applied
  below to the text \<^verbatim>\<open>{}\<close> and to the text \<^verbatim>\<open>not json\<close>, which \<^verbatim>\<open>JSON.parse\<close> rejects.
\<close>

definition parse_empty_object :: "string \<Rightarrow> js_error + build" where
  "parse_empty_object t = (if t = ''{}'' then Inr empty_build else Inl SyntaxError)"

text \<open>The Node platform with that stand-in and a clock that reads 2024-01-01T00:00:00Z.\<close>

definition node_stub :: platform where
  "node_stub = node_platform parse_empty_object (\<lambda>t. ''1704067200'')"

section \<open>Base64 in the words of RFC 4648\<close>

text \<open>
  What the specification calls a payload that is not malformed: the encoding of section 4
  of RFC 4648. \<open>base64_char\<close> is its alphabet, \<open>base64_encode\<close> encodes a list of bytes with
  padding, and a well-formed payload has a length that is a multiple of four, characters
  of that alphabet only and at most two \<^verbatim>\<open>=\<close>, at its end.
\<close>

definition base64_char :: "nat \<Rightarrow> char" where
  "base64_char n =
     (if n < 26 then char_of (n + 65)
      else if n < 52 then char_of (n + 71)
      else if n < 62 then char_of (n - 4)
      else if n = 62 then CHR ''+'' else CHR ''/'')"

fun base64_encode :: "nat list \<Rightarrow> string" where
  "base64_encode (a # b # c # rest) =
     base64_char (a div 4) # base64_char ((a mod 4) * 16 + b div 16)
       # base64_char ((b mod 16) * 4 + c div 64) # base64_char (c mod 64)
       # base64_encode rest"
| "base64_encode [a, b] =
     [base64_char (a div 4), base64_char ((a mod 4) * 16 + b div 16),
      base64_char ((b mod 16) * 4), CHR ''='']"
| "base64_encode [a] =
     [base64_char (a div 4), base64_char ((a mod 4) * 16), CHR ''='', CHR ''='']"
| "base64_encode [] = []"

definition rfc4648_wellformed :: "string \<Rightarrow> bool" where
  "rfc4648_wellformed data =
     (let body = takeWhile (\<lambda>c. c \<noteq> CHR ''='') data;
          pad = dropWhile (\<lambda>c. c \<noteq> CHR ''='') data
      in length data mod 4 = 0
         \<and> list_all (\<lambda>c. case unbase64 c of Some n \<Rightarrow> base64_char n = c | None \<Rightarrow> False) body
         \<and> (pad = [] \<or> pad = ''='' \<or> pad = ''==''))"

section \<open>The fallback chain in the words of the specification\<close>


section \<open>Facts used by several properties\<close>

lemmas js_simps = truthy_def js_or_def or_default_def template_def startsWith_def
  substring_0_7_def js_includes_def or_empty_def deref_def seq_def nl_def backtick_def
  emdash_def

lemmas markdown_simps = mrkdwn_def mrkdwnField_def mrkdwnLink_def mrkdwnInlineCode_def
  mrkdwnTimestamp_def timestamp_def source_url_def Markdown_markdown_def Markdown_field_def
  Markdown_link_def Markdown_code_def

text \<open>The status table answers \<^verbatim>\<open>undefined\<close> exactly for a key that is neither its own nor inherited.\<close>

lemma statusCodes_get_Undefined_iff:
  "statusCodes_get k = Undefined \<longleftrightarrow>
     template k \<notin> fst ` set statusCodes \<and> template k \<notin> set Object_prototype"
  by (auto simp: statusCodes_get_def map_of_eq_None_iff split: option.splits
           dest!: map_of_SomeD intro: rev_image_eqI)

lemma statusCodes_get_BOGUS: "statusCodes_get (Some ''BOGUS'') = Undefined"
  by (simp add: statusCodes_get_def statusCodes_def Object_prototype_def template_def)

text \<open>Cloud Build also reports the statuses PENDING and EXPIRED; the table has neither.\<close>

lemma statusCodes_get_unlisted:
  "statusCodes_get (Some ''PENDING'') = Undefined"
  "statusCodes_get (Some ''EXPIRED'') = Undefined"
  "statusCodes_get None = Undefined"
  by (simp_all add: statusCodes_get_def statusCodes_def Object_prototype_def template_def)

lemma statusCodes_get_own:
  "statusCodes_get (Some ''QUEUED'') = Own ''#fbbc05'' ''New build queued''"
  "statusCodes_get (Some ''WORKING'') = Own ''#34a853'' ''New build in progress''"
  "statusCodes_get (Some ''SUCCESS'') = Own ''#34a853'' ''Build successfully completed''"
  "statusCodes_get (Some ''FAILURE'') = Own ''#ea4335'' ''Build failed''"
  "statusCodes_get (Some ''INTERNAL_ERROR'') =
     Own ''#ea4335'' ''Internal error encountered during build''"
  "statusCodes_get (Some ''TIMEOUT'') = Own ''#ea4335'' ''Build timed out''"
  "statusCodes_get (Some ''CANCELLED'') = Own ''#fbbc05'' ''Build cancelled''"
  "statusCodes_get (Some ''STATUS_UNKNOWN'') = Own ''#444444'' ''Unknown build status''"
  by (simp_all add: statusCodes_get_def statusCodes_def template_def)

text \<open>The complete formatter throws exactly when the table has nothing for the status.\<close>

lemma createSlackMessage_throws:
  "statusCodes_get (status b) = Undefined \<Longrightarrow> createSlackMessage b = Inl TypeError"
  by (simp add: createSlackMessage_def property_text_def seq_def)

lemma createSlackMessage_returns:
  "statusCodes_get (status b) \<noteq> Undefined \<Longrightarrow> \<exists>m. createSlackMessage b = Inr m"
  by (cases "statusCodes_get (status b)")
     (simp_all add: createSlackMessage_def property_text_def property_color_def seq_def Let_def)

lemma createSlackMessage_error:
  "createSlackMessage b = Inl e \<Longrightarrow> e = TypeError \<and> statusCodes_get (status b) = Undefined"
  by (cases "statusCodes_get (status b)")
     (simp_all add: createSlackMessage_def property_text_def property_color_def seq_def Let_def)

lemma eventToBuild_stub: "eventToBuild (stub_platform b) ''QlVJTEQ='' = Inr b"
  by (simp add: eventToBuild_def stub_platform_def)

text \<open>\<^verbatim>\<open>xTags.length > 0\<close> says that the two tag lists meet.\<close>

lemma xTags_nonempty:
  "(length (filter (\<lambda>v. v \<in> set ys) xs) > 0) = (set xs \<inter> set ys \<noteq> {})"
  by (auto simp: filter_empty_conv)

text \<open>
  Once the message is built, the handler sends what the policy of the specification
  says: first to the failure webhook, then to the general one.
\<close>

lemma subscribeSlack_sends:
  assumes "eventToBuild p data = Inr b" and "createSlackMessage b = Inr m"
  shows "subscribeSlack cfg p data =
           (None, (if snd (shouldNotify_spec cfg b) then [(Failure, m)] else [])
                  @ (if fst (shouldNotify_spec cfg b) then [(General, m)] else []))"
  using assms
  by (simp add: subscribeSlack_def shouldNotify_spec_def Let_def xTags_nonempty
           del: length_greater_0_conv)

lemma subscribeSlack_throws:
  assumes "eventToBuild p data = Inr b" and "createSlackMessage b = Inl e"
  shows "subscribeSlack cfg p data = (Some e, [])"
  using assms by (simp add: subscribeSlack_def)

section \<open>The notify-status filter\<close>

text \<open>
  Claim C4. For every Build Event whose status is not a member of the configured
  notify-status set, an unrecognized status included, the policy is
  \<open>(send, sendToFailureChannel) = (False, False)\<close> and the handler sends nothing to either
  webhook. This holds whether the handler returns or throws on the message.
\<close>

theorem notify_status_filter:
  assumes "eventToBuild p data = Inr b"
    and "\<not> js_includes (notifyStatuses cfg) (status b)"
  shows "snd (subscribeSlack cfg p data) = [] \<and> shouldNotify_spec cfg b = (False, False)"
proof (cases "createSlackMessage b")
  case (Inl e)
  with assms show ?thesis
    by (simp add: subscribeSlack_throws shouldNotify_spec_def)
next
  case (Inr m)
  with assms show ?thesis
    by (simp add: subscribeSlack_sends shouldNotify_spec_def)
qed

theorem notify_status_filter_witness:
  "\<not> js_includes (notifyStatuses (default_config True)) (Some ''QUEUED'')
   \<and> subscribeSlack (default_config True)
        (stub_platform (empty_build\<lparr>status := Some ''QUEUED''\<rparr>)) ''QlVJTEQ='' = (None, [])
   \<and> shouldNotify_spec (default_config True) (empty_build\<lparr>status := Some ''QUEUED''\<rparr>)
       = (False, False)"
proof -
  let ?b = "empty_build\<lparr>status := Some ''QUEUED''\<rparr>"
  have h: "\<not> js_includes (notifyStatuses (default_config True)) (status ?b)"
    by (simp add: default_config_def js_includes_def)
  have m: "\<exists>m. createSlackMessage ?b = Inr m"
    by (rule createSlackMessage_returns) (simp add: statusCodes_get_own)
  from notify_status_filter [OF eventToBuild_stub h] h m show ?thesis
    by (auto simp: subscribeSlack_def eventToBuild_stub)
qed

section \<open>The ignore-tag filter\<close>

text \<open>
  Claim C3, as amended. For every Build Event whose tag list (empty when absent) meets the
  configured ignore tags: with status SUCCESS the policy is \<open>(False, False)\<close> and nothing
  is sent; with status FAILURE the general webhook receives the message, provided FAILURE
  is in the configured notify-status set.
\<close>

theorem ignore_tags_filter:
  assumes "eventToBuild p data = Inr b"
    and "set (or_empty (tags b)) \<inter> set (ignoreTags cfg) \<noteq> {}"
  shows "(status b = Some ''SUCCESS''
            \<longrightarrow> snd (subscribeSlack cfg p data) = [] \<and> shouldNotify_spec cfg b = (False, False))
         \<and> (status b = Some ''FAILURE'' \<and> ''FAILURE'' \<in> set (notifyStatuses cfg)
            \<longrightarrow> (\<exists>m. createSlackMessage b = Inr m
                     \<and> (General, m) \<in> set (snd (subscribeSlack cfg p data)))
                \<and> fst (shouldNotify_spec cfg b))"
proof (intro conjI impI)
  assume s: "status b = Some ''SUCCESS''"
  then obtain m where m: "createSlackMessage b = Inr m"
    using createSlackMessage_returns [of b] by (auto simp: statusCodes_get_own)
  from s assms(2) have "shouldNotify_spec cfg b = (False, False)"
    by (simp add: shouldNotify_spec_def)
  then show "snd (subscribeSlack cfg p data) = []" "shouldNotify_spec cfg b = (False, False)"
    by (simp_all add: subscribeSlack_sends [OF assms(1) m])
next
  assume f: "status b = Some ''FAILURE'' \<and> ''FAILURE'' \<in> set (notifyStatuses cfg)"
  then obtain m where m: "createSlackMessage b = Inr m"
    using createSlackMessage_returns [of b] by (auto simp: statusCodes_get_own)
  from f show spec: "fst (shouldNotify_spec cfg b)"
    by (simp add: shouldNotify_spec_def js_includes_def)
  with m show "\<exists>m. createSlackMessage b = Inr m
                 \<and> (General, m) \<in> set (snd (subscribeSlack cfg p data))"
    by (simp add: subscribeSlack_sends [OF assms(1) m])
qed

lemma createSlackMessage_nightly_failure:
  "createSlackMessage nightly_failure = Inr nightly_failure_message"
  by (simp add: createSlackMessage_def nightly_failure_def nightly_failure_message_def
        empty_build_def statusCodes_get_own property_text_def property_color_def
        substitution_def js_simps markdown_simps Let_def)

theorem ignore_tags_filter_witness:
  "set (or_empty (tags nightly_success)) \<inter> set (ignoreTags (default_config False)) \<noteq> {}
   \<and> subscribeSlack (default_config False) (stub_platform nightly_success) ''QlVJTEQ=''
       = (None, [])
   \<and> ''FAILURE'' \<in> set (notifyStatuses (default_config False))
   \<and> (General, nightly_failure_message)
       \<in> set (snd (subscribeSlack (default_config False) (stub_platform nightly_failure)
                     ''QlVJTEQ=''))"
proof -
  have t: "set (or_empty (tags nightly_success)) \<inter> set (ignoreTags (default_config False)) \<noteq> {}"
       "set (or_empty (tags nightly_failure)) \<inter> set (ignoreTags (default_config False)) \<noteq> {}"
    by (simp_all add: nightly_success_def nightly_failure_def default_config_def or_empty_def)
  have s: "status nightly_success = Some ''SUCCESS''" "status nightly_failure = Some ''FAILURE''"
    by (simp_all add: nightly_success_def nightly_failure_def)
  have n: "''FAILURE'' \<in> set (notifyStatuses (default_config False))"
    by (simp add: default_config_def)
  have r: "fst (subscribeSlack (default_config False) (stub_platform nightly_success)
                  ''QlVJTEQ='') = None"
    using createSlackMessage_returns [of nightly_success]
    by (auto simp: subscribeSlack_def eventToBuild_stub statusCodes_get_own s Let_def)
  from ignore_tags_filter [OF eventToBuild_stub t(1)] ignore_tags_filter [OF eventToBuild_stub t(2)]
       t s n r createSlackMessage_nightly_failure
  show ?thesis by (auto simp: prod_eq_iff)
qed

text \<open>
  The claim as written fails where the notify-status set leaves FAILURE out: the failed
  scheduled build is then not sent.
\<close>

theorem ignore_tags_failure_counterexample:
  "set (or_empty (tags nightly_failure)) \<inter> set (ignoreTags notify_success_only) \<noteq> {}
   \<and> status nightly_failure = Some ''FAILURE''
   \<and> subscribeSlack notify_success_only (stub_platform nightly_failure) ''QlVJTEQ=''
       = (None, [])
   \<and> shouldNotify_spec notify_success_only nightly_failure = (False, False)"
proof -
  have spec: "shouldNotify_spec notify_success_only nightly_failure = (False, False)"
    by (simp add: shouldNotify_spec_def notify_success_only_def default_config_def
          nightly_failure_def js_includes_def)
  show ?thesis
    unfolding subscribeSlack_sends [OF eventToBuild_stub createSlackMessage_nightly_failure] spec
    by (simp add: notify_success_only_def default_config_def nightly_failure_def or_empty_def)
qed

section \<open>The failure webhook\<close>

text \<open>
  When the message \<open>m\<close> was built and the event passes both filters, the failure webhook
  receives \<open>m\<close> exactly when it is configured and the status is in the failure-status set,
  and the general webhook receives \<open>m\<close> in either case.
\<close>

lemma failure_channel_routing:
  assumes "eventToBuild p data = Inr b" and "createSlackMessage b = Inr m"
    and "js_includes (notifyStatuses cfg) (status b)"
    and "\<not> (set (or_empty (tags b)) \<inter> set (ignoreTags cfg) \<noteq> {} \<and> status b = Some ''SUCCESS'')"
  shows "((Failure, m) \<in> set (snd (subscribeSlack cfg p data))
            \<longleftrightarrow> webhooks_failure cfg \<and> js_includes (failureStatuses cfg) (status b))
         \<and> (General, m) \<in> set (snd (subscribeSlack cfg p data))
         \<and> subscribeSlack cfg p data =
             (None, (if webhooks_failure cfg \<and> js_includes (failureStatuses cfg) (status b)
                     then [(Failure, m)] else []) @ [(General, m)])
         \<and> shouldNotify_spec cfg b =
             (True, webhooks_failure cfg \<and> js_includes (failureStatuses cfg) (status b))"
proof -
  from assms(3,4) have spec: "shouldNotify_spec cfg b =
      (True, webhooks_failure cfg \<and> js_includes (failureStatuses cfg) (status b))"
    by (auto simp: shouldNotify_spec_def)
  show ?thesis
    unfolding subscribeSlack_sends [OF assms(1,2)] spec by simp
qed

lemma failure_channel_routing_example:
  "subscribeSlack (default_config True) (stub_platform nightly_failure) ''QlVJTEQ=''
       = (None, [(Failure, nightly_failure_message), (General, nightly_failure_message)])
   \<and> subscribeSlack (default_config False) (stub_platform nightly_failure) ''QlVJTEQ=''
       = (None, [(General, nightly_failure_message)])"
proof -
  have n: "js_includes (notifyStatuses (default_config c)) (status nightly_failure)" for c
    by (simp add: default_config_def nightly_failure_def js_includes_def)
  have t: "\<not> (set (or_empty (tags nightly_failure)) \<inter> set (ignoreTags (default_config c)) \<noteq> {}
          \<and> status nightly_failure = Some ''SUCCESS'')" for c
    by (simp add: nightly_failure_def)
  have f: "js_includes (failureStatuses (default_config c)) (status nightly_failure)" for c
    by (simp add: default_config_def nightly_failure_def js_includes_def)
  from failure_channel_routing [OF eventToBuild_stub createSlackMessage_nightly_failure n t, of True]
       failure_channel_routing [OF eventToBuild_stub createSlackMessage_nightly_failure n t, of False]
       f
  show ?thesis by (simp add: default_config_def)
qed

text \<open>
  Claim C5 says that every Build Event that passes the policy reaches the general webhook,
  and the failure webhook as well when that one is configured and the status is a failure
  status. With EXPIRED among the notify and the failure statuses, a build with that status
  passes the policy for both webhooks, but the handler throws while it builds the message
  and neither webhook receives anything.
\<close>

theorem failure_channel_starved:
  "shouldNotify_spec expired_config expired_build = (True, True)
   \<and> subscribeSlack expired_config (stub_platform expired_build) ''QlVJTEQ=''
       = (Some TypeError, [])"
proof -
  have "statusCodes_get (status expired_build) = Undefined"
    by (simp add: expired_build_def statusCodes_get_unlisted)
  then have "createSlackMessage expired_build = Inl TypeError"
    by (rule createSlackMessage_throws)
  then have "subscribeSlack expired_config (stub_platform expired_build) ''QlVJTEQ=''
               = (Some TypeError, [])"
    by (rule subscribeSlack_throws [OF eventToBuild_stub])
  moreover have "shouldNotify_spec expired_config expired_build = (True, True)"
    by (simp add: shouldNotify_spec_def expired_config_def expired_build_def empty_build_def
          js_includes_def or_empty_def)
  ultimately show ?thesis by simp
qed

section \<open>The message is built before the filters\<close>

text \<open>
  Claim C10. In the complete revision the handler builds the message for every decoded
  Build Event before it looks at the notify statuses and the ignore tags. So whenever the
  formatter throws, as it does for a status with no entry in the status table, the
  invocation throws that error and sends nothing, whatever the configuration, also one
  that would have filtered the event out.
\<close>

theorem message_built_before_filters:
  assumes "eventToBuild p data = Inr b"
  shows "(\<forall>e. createSlackMessage b = Inl e \<longrightarrow> subscribeSlack cfg p data = (Some e, []))
         \<and> (statusCodes_get (status b) = Undefined
              \<longrightarrow> subscribeSlack cfg p data = (Some TypeError, []))"
  using assms by (simp add: subscribeSlack_throws createSlackMessage_throws)

theorem message_built_before_filters_witness:
  "\<not> js_includes (notifyStatuses (default_config True)) (Some ''BOGUS'')
   \<and> subscribeSlack (default_config True)
        (stub_platform (empty_build\<lparr>status := Some ''BOGUS''\<rparr>)) ''QlVJTEQ=''
       = (Some TypeError, [])"
proof -
  have "statusCodes_get (status (empty_build\<lparr>status := Some ''BOGUS''\<rparr>)) = Undefined"
    by (simp add: statusCodes_get_BOGUS)
  with message_built_before_filters
         [OF eventToBuild_stub, of "empty_build\<lparr>status := Some ''BOGUS''\<rparr>" "default_config True"]
  show ?thesis by (simp add: default_config_def js_includes_def)
qed

text \<open>Revisions 2 and 3 filter first: the same event ends their handler without an error.\<close>

lemma subscribeSlack_v2_filters_first:
  "subscribeSlack_v2 (stub_platform (empty_build\<lparr>status := Some ''BOGUS''\<rparr>)) ''QlVJTEQ=''
     = (None, [])"
  by (simp add: subscribeSlack_v2_def eventToBuild_stub js_includes_def)

section \<open>The status table\<close>

text \<open>
  What the complete formatter shows for a status of the table, and for a name that the
  table only inherits: there the text is the status itself.
\<close>

lemma createSlackMessage_own:
  assumes "statusCodes_get (status b) = Own c t" and "t \<noteq> []" and "c \<noteq> []"
  shows "\<exists>m rest. createSlackMessage b = Inr m
           \<and> msg_text m = Some (t @ '': '' @ rest) \<and> color m = Some c"
  using assms
  by (simp add: createSlackMessage_def property_text_def property_color_def seq_def Let_def
        js_or_def truthy_def or_default_def template_def)

lemma createSlackMessage_inherited:
  assumes "statusCodes_get (Some s) = Inherited" and "status b = Some s"
  shows "\<exists>m rest. createSlackMessage b = Inr m
           \<and> msg_text m = Some (s @ '': '' @ rest) \<and> color m = Some ''#444444''"
  using assms
  by (simp add: createSlackMessage_def property_text_def property_color_def seq_def Let_def
        js_or_def truthy_def or_default_def template_def)

lemma createSlackMessage_constructor:
  "createSlackMessage (empty_build\<lparr>status := Some ''constructor''\<rparr>) =
     Inr \<lparr>msg_text = Some ''constructor: Build for undefined'',
          color = Some ''#444444'',
          blocks =
            [Context [Mrkdwn ''<undefined|Click here to view logs...>'' False],
             Context [Mrkdwn ''Type: *Build*'' False,
                      Mrkdwn ''Status: *constructor*'' False]]\<rparr>"
  by (simp add: createSlackMessage_def empty_build_def statusCodes_get_def statusCodes_def
        Object_prototype_def property_text_def property_color_def substitution_def js_simps
        markdown_simps Let_def)

text \<open>
  \<^verbatim>\<open>Unknown build status\<close> and \<^verbatim>\<open>#444444\<close> are the entry of the key \<^verbatim>\<open>STATUS_UNKNOWN\<close>, the
  eighth of the table: a build with that status is shown with them.
\<close>

lemma status_unknown_entry:
  assumes "status b = Some ''STATUS_UNKNOWN''"
  shows "\<exists>m rest. createSlackMessage b = Inr m
           \<and> msg_text m = Some (''Unknown build status'' @ '': '' @ rest)
           \<and> color m = Some ''#444444''"
  using assms by (intro createSlackMessage_own) (simp_all add: statusCodes_get_own)

lemma status_unknown_entry_example:
  "createSlackMessage (empty_build\<lparr>status := Some ''STATUS_UNKNOWN''\<rparr>) =
     Inr \<lparr>msg_text = Some ''Unknown build status: Build for undefined'',
          color = Some ''#444444'',
          blocks =
            [Context [Mrkdwn ''<undefined|Click here to view logs...>'' False],
             Context [Mrkdwn ''Type: *Build*'' False,
                      Mrkdwn ''Status: *STATUS_UNKNOWN*'' False]]\<rparr>"
  by (simp add: createSlackMessage_def empty_build_def statusCodes_get_own property_text_def
        property_color_def substitution_def js_simps markdown_simps Let_def)

text \<open>
  Claim C2 says that a status outside the seven listed ones, \<^verbatim>\<open>BOGUS\<close> for one, is shown
  with the description \<^verbatim>\<open>Unknown build status\<close> and the color \<^verbatim>\<open>#444444\<close>. For \<^verbatim>\<open>BOGUS\<close>,
  and for the statuses PENDING and EXPIRED of Cloud Build, the table returns
  \<^verbatim>\<open>undefined\<close> and reading \<^verbatim>\<open>.text\<close> throws: no description and no color are rendered.
\<close>

theorem unmapped_status_not_rendered:
  "createSlackMessage (empty_build\<lparr>status := Some ''BOGUS''\<rparr>) = Inl TypeError
   \<and> createSlackMessage (empty_build\<lparr>status := Some ''PENDING''\<rparr>) = Inl TypeError
   \<and> createSlackMessage (empty_build\<lparr>status := Some ''EXPIRED''\<rparr>) = Inl TypeError"
  by (simp add: createSlackMessage_throws statusCodes_get_BOGUS statusCodes_get_unlisted)

section \<open>Where the formatters return\<close>

text \<open>
  Revision 1 returns a message exactly for a build with both descriptors, a commit SHA
  and images; revision 4 returns one for every build.
\<close>

lemma createSlackMessage_v1_returns_iff:
  "(\<exists>m. createSlackMessage_v1 p b = Inr m) \<longleftrightarrow>
     (\<exists>src rs prov rrs sha imgs. source b = Some src \<and> repoSource src = Some rs
        \<and> sourceProvenance b = Some prov \<and> resolvedRepoSource prov = Some rrs
        \<and> commitSha rrs = Some sha \<and> images b = Some imgs)"
  by (auto simp: createSlackMessage_v1_def deref_def Let_def split: option.splits)

lemma createSlackMessage_v4_returns: "\<exists>m. createSlackMessage_v4 p b = Inr m"
  by (simp add: createSlackMessage_v4_def)

text \<open>
  In a message of the complete formatter the repository section is there as a whole, with
  the dash for each missing value, or not at all.
\<close>

lemma createSlackMessage_repoSection:
  assumes "createSlackMessage b = Inr m"
  shows "\<exists>pre post. blocks m = pre @
           (if truthy (substitution b ''REPO_NAME'') \<or> truthy (substitution b ''BRANCH_NAME'')
               \<or> truthy (js_or (substitution b ''COMMIT_SHA'') (substitution b ''REVISION_ID''))
            then [Divider,
                  Context [Markdown_field ''Branch''
                             (or_default (substitution b ''BRANCH_NAME'') emdash)],
                  Context [Markdown_field ''Commit''
                             (or_default (js_or (substitution b ''COMMIT_SHA'')
                                                (substitution b ''REVISION_ID'')) emdash)],
                  Context [Markdown_field ''Repo''
                             (or_default (substitution b ''REPO_NAME'') emdash)]]
            else []) @ post"
proof -
  have *: "\<exists>pre post. (a @ o1 @ r @ t) = pre @ r @ post" for a o1 r t :: "block list"
    by (metis append.assoc)
  from assms have "statusCodes_get (status b) \<noteq> Undefined"
    using createSlackMessage_throws by fastforce
  then show ?thesis
    using assms
    by (cases "statusCodes_get (status b)")
       (auto simp add: createSlackMessage_def property_text_def property_color_def seq_def
          Let_def intro!: * simp del: append.simps split del: if_split)
qed

text \<open>
  Claim C1 says that the formatter returns a message for every Build Event, a status that
  the table does not list included. The complete formatter throws on the first scenario of
  the specification once its status is \<^verbatim>\<open>BOGUS\<close>, and revision 1 throws on that build
  with status SUCCESS, because it has no repository descriptor.
\<close>

theorem formatter_throws_on_unlisted_status:
  "createSlackMessage bogus_build = Inl TypeError
   \<and> createSlackMessage_v1 (stub_platform empty_build) (bogus_build\<lparr>status := Some ''SUCCESS''\<rparr>)
       = Inl TypeError"
  by (simp add: createSlackMessage_throws statusCodes_get_BOGUS bogus_build_def
        createSlackMessage_v1_def deref_def)

section \<open>The fallback chains\<close>




text \<open>An empty name in the descriptor counts as missing: the substitution is taken.\<close>

lemma repoName_v4_empty_string:
  "repoName_v4 (sourced_build\<lparr>source :=
      Some \<lparr>repoSource = Some \<lparr>repoName = Some [], branchName = None, projectId = None\<rparr>\<rparr>\<rparr>)
     = Some ''svc''"
  by (simp add: repoName_v4_def repoSource_v4_def substitution_def sourced_build_def js_simps)




section \<open>The commit link\<close>

text \<open>
  Claim C7, as amended. In revision 4 the Commit field, the fifth of the section, is the
  link to \<^verbatim>\<open>https://source.cloud.google.com/{projectId}/{repoName}/+/{commitSha}\<close> with the
  first seven characters of the commit SHA in inline code as its label exactly when the
  project id, the repository name and the commit SHA (the last two after their fallback
  chains) are all present, that is defined and not empty; otherwise it is \<^verbatim>\<open>n/a\<close>.
\<close>

theorem commit_link_v4:
  "\<exists>logs fs t. createSlackMessage_v4 p b = Inr \<lparr>msg_text = t, color = None,
                                               blocks = [logs, SectionFields fs]\<rparr>
     \<and> length fs = 8
     \<and> (\<forall>P R C. projectId_v4 b = Some P \<and> P \<noteq> [] \<and> repoName_v4 b = Some R \<and> R \<noteq> []
                  \<and> commitSha_v4 b = Some C \<and> C \<noteq> []
           \<longrightarrow> fs ! 4 = Mrkdwn (''*Commit:*'' @ nl
                                  @ ''<https://source.cloud.google.com/'' @ P @ ''/'' @ R
                                  @ ''/+/'' @ C @ ''|'' @ backtick @ take 7 C @ backtick @ ''>''
                                  @ nl) False)
     \<and> (\<not> truthy (projectId_v4 b) \<or> \<not> truthy (repoName_v4 b) \<or> \<not> truthy (commitSha_v4 b)
           \<longrightarrow> fs ! 4 = Mrkdwn (''*Commit:*'' @ nl @ ''n/a'' @ nl) False)"
  by (auto simp: createSlackMessage_v4_def commitLink_v4_def hasRepoInfo_v4_def truthy_def
        template_def substring_0_7_def markdown_simps)

theorem commit_link_v4_witness:
  "projectId_v4 sourced_build = Some ''proj'' \<and> repoName_v4 sourced_build = Some ''app''
   \<and> commitSha_v4 sourced_build = Some ''abcdef1234567''
   \<and> commitLink_v4 sourced_build
       = ''<https://source.cloud.google.com/proj/app/+/abcdef1234567|''
           @ backtick @ ''abcdef1'' @ backtick @ ''>''
   \<and> \<not> truthy (projectId_v4 bogus_build) \<and> commitLink_v4 bogus_build = ''n/a''
   \<and> commitLink_v4 substituted_build
       = ''<https://source.cloud.google.com/proj/svc/+/abcdef1234567|''
           @ backtick @ ''abcdef1'' @ backtick @ ''>''"
  using commit_link_v4 [of "stub_platform empty_build" sourced_build]
        commit_link_v4 [of "stub_platform empty_build" bogus_build]
  by (simp add: sourced_build_def bogus_build_def substituted_build_def
        repoName_v4_def branchName_v4_def commitSha_v4_def projectId_v4_def tagName_v4_def
        repoSource_v4_def resolvedRepoSource_v4_def hasRepoInfo_v4_def commitLink_v4_def
        substitution_def js_simps markdown_simps)

text \<open>
  The claim as written fails on the other revisions. Lines 64-70 of revision 3 test the
  presence of \<^verbatim>\<open>repoSource\<close> alone: with a descriptor that has no project id,
  \<^verbatim>\<open>commitLink\<close> is a link with \<^verbatim>\<open>undefined\<close> in the place of the project. Revision 1
  renders that link. The complete formatter shows the commit SHA without any link, also
  when all three parts are known.
\<close>

theorem commit_link_counterexample:
  "projectId no_project = None
   \<and> commitLink_v3 (Some no_project) (Some \<lparr>commitSha = Some ''abcdef1234567'', tagName = None\<rparr>)
       = Inr (''<https://source.cloud.google.com/undefined/svc/+/abcdef1234567|''
                @ backtick @ ''abcdef1'' @ backtick @ ''>'')
   \<and> createSlackMessage_v1 (stub_platform empty_build) no_project_build =
       Inr \<lparr>msg_text = None, color = None,
            blocks =
              [SectionText (Mrkdwn (''*<https://x/log|Build Logs>*'' @ nl) False),
               SectionFields
                 [Mrkdwn (''*Status:*'' @ nl @ ''SUCCESS'' @ nl) False,
                  Mrkdwn (''*Repo:*'' @ nl @ ''svc'' @ nl) False,
                  Mrkdwn (''*Branch:*'' @ nl @ ''main'' @ nl) False,
                  Mrkdwn (''*Images:*'' @ nl @ nl) True,
                  Mrkdwn (''*Commit:*'' @ nl
                            @ ''<https://source.cloud.google.com/undefined/svc/+/abcdef1234567|''
                            @ backtick @ ''abcdef1'' @ backtick @ ''>'' @ nl) False,
                  Mrkdwn (''*Tag:*'' @ nl @ ''undefined'' @ nl) False,
                  Mrkdwn (''*Start:*'' @ nl
                            @ ''<!date^1704067200^{date_short_pretty} {time_secs}|2024-01-01T00:00:00Z>''
                            @ nl) False,
                  Mrkdwn (''*Finish:*'' @ nl
                            @ ''<!date^1704067200^{date_short_pretty} {time_secs}|2024-01-01T00:10:00Z>''
                            @ nl) False]]\<rparr>
   \<and> createSlackMessage substituted_build =
       Inr \<lparr>msg_text = Some ''Build successfully completed: Build for main'',
            color = Some ''#34a853'',
            blocks =
              [Context [Mrkdwn ''<https://x/log|Click here to view logs...>'' False],
               Context [Mrkdwn ''Type: *Build*'' False, Mrkdwn ''Status: *SUCCESS*'' False],
               Divider,
               Context [Mrkdwn (''Branch'' @ nl @ ''*main*'') False],
               Context [Mrkdwn (''Commit'' @ nl @ ''*abcdef1234567*'') False],
               Context [Mrkdwn (''Repo'' @ nl @ ''*svc*'') False]]\<rparr>"
proof (intro conjI)
  show "projectId no_project = None"
    by (simp add: no_project_def)
  show "commitLink_v3 (Some no_project)
          (Some \<lparr>commitSha = Some ''abcdef1234567'', tagName = None\<rparr>)
       = Inr (''<https://source.cloud.google.com/undefined/svc/+/abcdef1234567|''
                @ backtick @ ''abcdef1'' @ backtick @ ''>'')"
    by (simp add: commitLink_v3_def no_project_def js_simps markdown_simps)
  show "createSlackMessage_v1 (stub_platform empty_build) no_project_build =
       Inr \<lparr>msg_text = None, color = None,
            blocks =
              [SectionText (Mrkdwn (''*<https://x/log|Build Logs>*'' @ nl) False),
               SectionFields
                 [Mrkdwn (''*Status:*'' @ nl @ ''SUCCESS'' @ nl) False,
                  Mrkdwn (''*Repo:*'' @ nl @ ''svc'' @ nl) False,
                  Mrkdwn (''*Branch:*'' @ nl @ ''main'' @ nl) False,
                  Mrkdwn (''*Images:*'' @ nl @ nl) True,
                  Mrkdwn (''*Commit:*'' @ nl
                            @ ''<https://source.cloud.google.com/undefined/svc/+/abcdef1234567|''
                            @ backtick @ ''abcdef1'' @ backtick @ ''>'' @ nl) False,
                  Mrkdwn (''*Tag:*'' @ nl @ ''undefined'' @ nl) False,
                  Mrkdwn (''*Start:*'' @ nl
                            @ ''<!date^1704067200^{date_short_pretty} {time_secs}|2024-01-01T00:00:00Z>''
                            @ nl) False,
                  Mrkdwn (''*Finish:*'' @ nl
                            @ ''<!date^1704067200^{date_short_pretty} {time_secs}|2024-01-01T00:10:00Z>''
                            @ nl) False]]\<rparr>"
    by (simp add: createSlackMessage_v1_def no_project_build_def no_project_def
          sourced_build_def stub_platform_def js_simps markdown_simps Let_def)
  show "createSlackMessage substituted_build =
       Inr \<lparr>msg_text = Some ''Build successfully completed: Build for main'',
            color = Some ''#34a853'',
            blocks =
              [Context [Mrkdwn ''<https://x/log|Click here to view logs...>'' False],
               Context [Mrkdwn ''Type: *Build*'' False, Mrkdwn ''Status: *SUCCESS*'' False],
               Divider,
               Context [Mrkdwn (''Branch'' @ nl @ ''*main*'') False],
               Context [Mrkdwn (''Commit'' @ nl @ ''*abcdef1234567*'') False],
               Context [Mrkdwn (''Repo'' @ nl @ ''*svc*'') False]]\<rparr>"
    by (simp add: createSlackMessage_def substituted_build_def bogus_build_def
          statusCodes_get_own property_text_def property_color_def substitution_def js_simps
          markdown_simps Let_def)
qed

section \<open>The undefined \<^verbatim>\<open>repo\<close> of revisions 2 and 3\<close>

lemma createSlackMessage_v2_throws:
  "createSlackMessage_v2 p b =
     Inl (if \<exists>src rs prov rrs sha. source b = Some src \<and> repoSource src = Some rs
               \<and> sourceProvenance b = Some prov \<and> resolvedRepoSource prov = Some rrs
               \<and> commitSha rrs = Some sha
          then ReferenceError else TypeError)"
  by (auto simp: createSlackMessage_v2_def deref_def seq_def repo_def Let_def split: option.splits)

lemma createSlackMessage_v3_throws:
  "createSlackMessage_v3 p b =
     Inl (if \<exists>src prov. source b = Some src \<and> sourceProvenance b = Some prov
               \<and> (repoSource src = None
                  \<or> Option.bind (resolvedRepoSource prov) commitSha \<noteq> None)
          then ReferenceError else TypeError)"
  by (auto simp: createSlackMessage_v3_def commitLink_v3_def deref_def seq_def repo_def Let_def
           split: option.splits)

lemma subscribeSlack_v2_sends_nothing: "snd (subscribeSlack_v2 p data) = []"
  by (simp add: subscribeSlack_v2_def createSlackMessage_v2_throws split: sum.splits)

lemma subscribeSlack_v3_sends_nothing: "snd (subscribeSlack_v3 p data) = []"
  by (simp add: subscribeSlack_v3_def createSlackMessage_v3_throws split: sum.splits)

text \<open>
  Claim C9, as amended. In revisions 2 and 3 \<^verbatim>\<open>createSlackMessage\<close> never returns a
  message, and their handlers never send one. It throws the ReferenceError of \<^verbatim>\<open>repo\<close>
  when the evaluation gets as far as the Repo field, and a TypeError when a property
  access before it fails: in revision 2 when a descriptor or the commit SHA is missing, in
  revision 3 when \<^verbatim>\<open>source\<close> or \<^verbatim>\<open>sourceProvenance\<close> is missing or \<^verbatim>\<open>repoSource\<close> comes
  without a commit SHA.
\<close>

theorem repo_is_undefined:
  "createSlackMessage_v2 p b =
     Inl (if \<exists>src rs prov rrs sha. source b = Some src \<and> repoSource src = Some rs
               \<and> sourceProvenance b = Some prov \<and> resolvedRepoSource prov = Some rrs
               \<and> commitSha rrs = Some sha
          then ReferenceError else TypeError)
   \<and> createSlackMessage_v3 p b =
     Inl (if \<exists>src prov. source b = Some src \<and> sourceProvenance b = Some prov
               \<and> (repoSource src = None
                  \<or> Option.bind (resolvedRepoSource prov) commitSha \<noteq> None)
          then ReferenceError else TypeError)
   \<and> snd (subscribeSlack_v2 p data) = [] \<and> snd (subscribeSlack_v3 p data) = []"
  by (simp only: createSlackMessage_v2_throws createSlackMessage_v3_throws
        subscribeSlack_v2_sends_nothing subscribeSlack_v3_sends_nothing simp_thms)

theorem repo_is_undefined_witness:
  "createSlackMessage_v2 (stub_platform sourced_build) sourced_build = Inl ReferenceError
   \<and> createSlackMessage_v3 (stub_platform sourced_build) sourced_build = Inl ReferenceError
   \<and> subscribeSlack_v2 (stub_platform sourced_build) ''QlVJTEQ='' = (Some ReferenceError, [])
   \<and> subscribeSlack_v3 (stub_platform sourced_build) ''QlVJTEQ='' = (Some ReferenceError, [])
   \<and> createSlackMessage_v3 (stub_platform undescribed_build) undescribed_build
       = Inl ReferenceError"
  using repo_is_undefined [of "stub_platform sourced_build" sourced_build "''QlVJTEQ=''"]
        repo_is_undefined [of "stub_platform undescribed_build" undescribed_build "''QlVJTEQ=''"]
  by (simp add: sourced_build_def undescribed_build_def empty_build_def subscribeSlack_v2_def
        subscribeSlack_v3_def eventToBuild_stub js_includes_def)

text \<open>
  The claim as written fails on a successful build without repository descriptor: it
  reaches the formatter of revision 2, which throws a TypeError on the destructuring and
  never gets to \<^verbatim>\<open>repo\<close>. Revision 3 does the same on a build without \<^verbatim>\<open>source\<close>.
\<close>

theorem repo_type_error_counterexample:
  "js_includes [''SUCCESS'', ''FAILURE'', ''INTERNAL_ERROR'', ''TIMEOUT'', ''CANCELLED'']
     (status undescribed_build)
   \<and> createSlackMessage_v2 (stub_platform undescribed_build) undescribed_build = Inl TypeError
   \<and> subscribeSlack_v2 (stub_platform undescribed_build) ''QlVJTEQ='' = (Some TypeError, [])
   \<and> createSlackMessage_v3 (stub_platform empty_build) (empty_build\<lparr>status := Some ''SUCCESS''\<rparr>)
       = Inl TypeError"
  by (simp add: createSlackMessage_v2_def createSlackMessage_v3_def subscribeSlack_v2_def
        eventToBuild_stub undescribed_build_def empty_build_def js_includes_def deref_def)

section \<open>The decoder\<close>

text \<open>A failure of \<^verbatim>\<open>eventToBuild\<close> ends every handler before anything is sent.\<close>

lemma subscribeSlack_decode_error:
  assumes "eventToBuild p data = Inl e"
  shows "subscribeSlack cfg p data = (Some e, [])"
    and "subscribeSlack_v2 p data = (Some e, [])"
    and "subscribeSlack_v3 p data = (Some e, [])"
  using assms by (simp_all add: subscribeSlack_def subscribeSlack_v2_def subscribeSlack_v3_def)

lemma eventToBuild_node:
  "eventToBuild (node_platform parse unix) data = parse (Buffer_from_base64_toString data)"
  by (simp add: eventToBuild_def node_platform_def)

subsection \<open>The decoder of Node reads every payload\<close>

lemma sextets_filter:
  "sextets (filter (\<lambda>c. c = CHR ''='' \<or> unbase64 c \<noteq> None) data) = sextets data"
  by (induction data) (auto split: option.splits)

lemma sextets_takeWhile:
  "sextets (takeWhile (\<lambda>c. c \<noteq> CHR ''='') data) = sextets data"
  by (induction data) (auto split: option.splits)

lemma decode_skips:
  "Buffer_from_base64_toString (filter (\<lambda>c. c = CHR ''='' \<or> unbase64 c \<noteq> None) data)
     = Buffer_from_base64_toString data"
  unfolding Buffer_from_base64_toString_def sextets_filter ..

lemma decode_stops:
  "Buffer_from_base64_toString (takeWhile (\<lambda>c. c \<noteq> CHR ''='') data)
     = Buffer_from_base64_toString data"
  unfolding Buffer_from_base64_toString_def sextets_takeWhile ..

subsection \<open>It decodes what RFC 4648 encodes\<close>

lemma unbase64_base64_char: "n < 64 \<Longrightarrow> unbase64 (base64_char n) = Some n"
  by (auto simp: unbase64_def base64_char_def Let_def)

lemma unbase64_pad: "unbase64 (CHR ''='') = None"
  by (simp add: unbase64_def)

lemma base64_char_not_pad: "n < 64 \<Longrightarrow> base64_char n \<noteq> CHR ''=''"
  using unbase64_base64_char [of n] unbase64_pad by auto

lemma div16_small: "b < 256 \<Longrightarrow> (b::nat) div 16 < 16"
  by (simp add: less_mult_imp_div_less)

lemma div64_small: "c < 256 \<Longrightarrow> (c::nat) div 64 < 4"
  by (simp add: less_mult_imp_div_less)

lemma sextet_bounds:
  "a < 256 \<Longrightarrow> (a::nat) div 4 < 64"
  "b < 256 \<Longrightarrow> (a mod 4) * 16 + b div 16 < (64::nat)"
  "c < 256 \<Longrightarrow> (b mod 16) * 4 + c div 64 < (64::nat)"
  "(a mod 4) * 16 < (64::nat)"
  "(b mod 16) * 4 < (64::nat)"
  "c mod 64 < (64::nat)"
  using div16_small [of b] div64_small [of c] mod_less_divisor [of 4 a]
        mod_less_divisor [of 16 b]
  by (simp_all add: less_mult_imp_div_less)

lemma octet_of_sextets:
  "b < 256 \<Longrightarrow> a div 4 * 4 + ((a mod 4) * 16 + b div 16) div 16 = (a::nat)"
  "b < 256 \<Longrightarrow> c < 256 \<Longrightarrow>
     (((a mod 4) * 16 + b div 16) mod 16) * 16 + ((b mod 16) * 4 + c div 64) div 4 = b"
  "c < 256 \<Longrightarrow> (((b mod 16) * 4 + c div 64) mod 4) * 64 + c mod 64 = c"
  "b < 256 \<Longrightarrow> (((a mod 4) * 16 + b div 16) mod 16) * 16 + ((b mod 16) * 4) div 4 = b"
  "a div 4 * 4 + ((a mod 4) * 16) div 16 = a"
  using div16_small [of b] div64_small [of c] by simp_all

lemma octets_sextets_encode:
  "list_all (\<lambda>b. b < 256) bs \<Longrightarrow> octets (sextets (base64_encode bs)) = bs"
proof (induction bs rule: base64_encode.induct)
  case (1 a b c rest)
  then have lt: "a < 256" "b < 256" "c < 256" and rest: "list_all (\<lambda>b. b < 256) rest"
    by simp_all
  from 1 rest have ih: "octets (sextets (base64_encode rest)) = rest" by simp
  show ?case
    using lt ih
    by (simp add: unbase64_base64_char base64_char_not_pad sextet_bounds octet_of_sextets)
next
  case (2 a b)
  then have lt: "a < 256" "b < 256" by simp_all
  show ?case
    using lt
    by (simp add: unbase64_base64_char base64_char_not_pad sextet_bounds octet_of_sextets)
next
  case (3 a)
  then have lt: "a < 256" by simp
  show ?case
    using lt
    by (simp add: unbase64_base64_char base64_char_not_pad sextet_bounds octet_of_sextets)
next
  case 4
  then show ?case by simp
qed

lemma decode_encode:
  "Buffer_from_base64_toString (base64_encode (map of_char text)) = text"
proof -
  have "list_all (\<lambda>b. b < 256) (map of_char text :: nat list)"
    by (simp add: list_all_iff)
  then show ?thesis
    by (simp add: Buffer_from_base64_toString_def octets_sextets_encode comp_def)
qed

subsection \<open>Three payloads\<close>

lemma decode_empty_object:
  "Buffer_from_base64_toString ''e30='' = ''{}''"
  "Buffer_from_base64_toString ''e3!!0='' = ''{}''"
  by code_simp+

lemma decode_not_json: "Buffer_from_base64_toString ''bm90IGpzb24='' = ''not json''"
  by code_simp

subsection \<open>eventToBuild\<close>

text \<open>
  Claim C8, as amended. In a Node process \<^verbatim>\<open>eventToBuild\<close> decodes the payload, parses the
  decoded text as one JSON document and returns what the parser returns, with no further
  validation. The decoding never fails: it gives back the text that a well-formed payload
  encodes, and on any other payload it skips the characters outside the alphabet and
  stops at the first \<^verbatim>\<open>=\<close>. So \<^verbatim>\<open>eventToBuild\<close> fails exactly when the decoded text does not
  parse, and then every handler ends with that error, has no Build object and has sent
  nothing.
\<close>

theorem eventToBuild_lenient:
  "eventToBuild (node_platform parse unix) data = parse (Buffer_from_base64_toString data)
   \<and> ((\<exists>e. eventToBuild (node_platform parse unix) data = Inl e)
        \<longleftrightarrow> (\<exists>e. parse (Buffer_from_base64_toString data) = Inl e))
   \<and> Buffer_from_base64_toString (base64_encode (map of_char text)) = text
   \<and> Buffer_from_base64_toString (filter (\<lambda>c. c = CHR ''='' \<or> unbase64 c \<noteq> None) data)
        = Buffer_from_base64_toString data
   \<and> Buffer_from_base64_toString (takeWhile (\<lambda>c. c \<noteq> CHR ''='') data)
        = Buffer_from_base64_toString data
   \<and> (\<forall>e. eventToBuild (node_platform parse unix) data = Inl e \<longrightarrow>
         subscribeSlack cfg (node_platform parse unix) data = (Some e, [])
         \<and> subscribeSlack_v2 (node_platform parse unix) data = (Some e, [])
         \<and> subscribeSlack_v3 (node_platform parse unix) data = (Some e, []))"
proof (intro conjI)
  show "eventToBuild (node_platform parse unix) data = parse (Buffer_from_base64_toString data)"
    by (rule eventToBuild_node)
  then show "(\<exists>e. eventToBuild (node_platform parse unix) data = Inl e)
        \<longleftrightarrow> (\<exists>e. parse (Buffer_from_base64_toString data) = Inl e)"
    by simp
  show "Buffer_from_base64_toString (base64_encode (map of_char text)) = text"
    by (rule decode_encode)
  show "Buffer_from_base64_toString (filter (\<lambda>c. c = CHR ''='' \<or> unbase64 c \<noteq> None) data)
        = Buffer_from_base64_toString data"
    by (rule decode_skips)
  show "Buffer_from_base64_toString (takeWhile (\<lambda>c. c \<noteq> CHR ''='') data)
        = Buffer_from_base64_toString data"
    by (rule decode_stops)
  show "\<forall>e. eventToBuild (node_platform parse unix) data = Inl e \<longrightarrow>
         subscribeSlack cfg (node_platform parse unix) data = (Some e, [])
         \<and> subscribeSlack_v2 (node_platform parse unix) data = (Some e, [])
         \<and> subscribeSlack_v3 (node_platform parse unix) data = (Some e, [])"
    by (simp add: subscribeSlack_decode_error)
qed

theorem eventToBuild_lenient_witness:
  "base64_encode (map of_char ''not json'') = ''bm90IGpzb24=''
   \<and> parse_empty_object ''not json'' = Inl SyntaxError
   \<and> eventToBuild node_stub ''bm90IGpzb24=''
       = Inl SyntaxError
   \<and> subscribeSlack (default_config True) node_stub
        ''bm90IGpzb24='' = (Some SyntaxError, [])
   \<and> base64_encode (map of_char ''{}'') = ''e30=''
   \<and> eventToBuild node_stub ''e30=''
       = Inr empty_build"
proof -
  have enc: "base64_encode (map of_char ''not json'') = ''bm90IGpzb24=''"
            "base64_encode (map of_char ''{}'') = ''e30=''"
    by code_simp+
  from eventToBuild_lenient [of parse_empty_object "\<lambda>t. ''1704067200''" "''bm90IGpzb24=''"
         "''not json''" "default_config True"]
       eventToBuild_lenient [of parse_empty_object "\<lambda>t. ''1704067200''" "''e30=''"
         "''{}''" "default_config True"]
       enc
  show ?thesis
    by (simp add: node_stub_def decode_empty_object decode_not_json parse_empty_object_def)
qed

text \<open>
  The claim as written fails on a payload that is not well-formed base64 and still
  decodes to a JSON document: \<^verbatim>\<open>e3!!0=\<close> has six characters, two of them outside the
  alphabet, and \<^verbatim>\<open>eventToBuild\<close> returns the empty object for it.
\<close>

theorem malformed_payload_counterexample:
  "\<not> rfc4648_wellformed ''e3!!0=''
   \<and> eventToBuild node_stub ''e3!!0=''
       = Inr empty_build"
  by (simp add: node_stub_def eventToBuild_node decode_empty_object parse_empty_object_def
        rfc4648_wellformed_def unbase64_def)

end
